theory Spec2Isabelle
  imports Main "HOL-Library.Sublist"
begin

section \<open>The CI workflow \<^verbatim>\<open>.github/workflows/cli-scripts-create-compute.yml\<close>\<close>

text \<open>
  The workflow file is YAML: a name, the triggers under \<^verbatim>\<open>on:\<close> and one job
  \<^verbatim>\<open>build\<close> with a list of steps. A step has a name, either \<^verbatim>\<open>uses\<close> (an action)
  or \<^verbatim>\<open>run\<close> (a shell command), and optionally \<^verbatim>\<open>with\<close>, \<^verbatim>\<open>working-directory\<close>
  and \<^verbatim>\<open>continue-on-error\<close>. A key the file leaves out is \<open>None\<close> (or \<open>[]\<close>);
  \<^verbatim>\<open>continue-on-error\<close> left out is \<open>False\<close>, the platform's default.
\<close>

record step =
  step_name :: string
  step_uses :: "string option"
  step_with :: "(string \<times> string) list"
  step_run :: "string option"
  working_directory :: "string option"
  continue_on_error :: bool

record job =
  runs_on :: string
  job_steps :: "step list"

text \<open>
  The value of one key under \<^verbatim>\<open>on:\<close>: a list of cron expressions for \<^verbatim>\<open>schedule\<close>,
  the \<^verbatim>\<open>branches\<close> and \<^verbatim>\<open>paths\<close> filters for \<^verbatim>\<open>pull_request\<close>.
\<close>

datatype trigger = Crons "string list" | Filters "string list" "string list"

record workflow =
  wf_name :: string
  wf_on :: "(string \<times> trigger) list"
  wf_jobs :: "(string \<times> job) list"

definition checkout_step :: step where
  "checkout_step =
     \<lparr> step_name = ''check out repo'', step_uses = Some ''actions/checkout@v2'',
       step_with = [], step_run = None, working_directory = None,
       continue_on_error = False \<rparr>"

definition login_step :: step where
  "login_step =
     \<lparr> step_name = ''azure login'', step_uses = Some ''azure/login@v1'',
       step_with = [(''creds'', ''${{secrets.AZ_AE_CREDS}}'')], step_run = None,
       working_directory = None, continue_on_error = False \<rparr>"

definition install_step :: step where
  "install_step =
     \<lparr> step_name = ''install ml cli'', step_uses = None, step_with = [],
       step_run = Some ''az extension add -n ml -y'', working_directory = None,
       continue_on_error = False \<rparr>"

definition setup_step :: step where
  "setup_step =
     \<lparr> step_name = ''setup'', step_uses = None, step_with = [],
       step_run = Some ''bash setup.sh'', working_directory = Some ''cli'',
       continue_on_error = True \<rparr>"

definition apt_step :: step where
  "apt_step =
     \<lparr> step_name = ''scripts installs'', step_uses = None, step_with = [],
       step_run = Some ''sudo apt-get upgrade -y && sudo apt-get install uuid-runtime jq -y'',
       working_directory = None, continue_on_error = False \<rparr>"

definition script_step :: step where
  "script_step =
     \<lparr> step_name = ''test script script'', step_uses = None, step_with = [],
       step_run = Some ''set -e; bash -x create-compute.sh'',
       working_directory = Some ''cli'', continue_on_error = False \<rparr>"

definition build_job :: job where
  "build_job =
     \<lparr> runs_on = ''ubuntu-latest'',
       job_steps = [checkout_step, login_step, install_step, setup_step, apt_step,
                    script_step] \<rparr>"

definition create_compute_workflow :: workflow where
  "create_compute_workflow =
     \<lparr> wf_name = ''cli-scripts-create-compute'',
       wf_on = [(''schedule'', Crons [''0 0/4 * * *'']),
                (''pull_request'',
                   Filters [''main'', ''cli-preview'']
                           [''cli/create-compute.sh'',
                            ''.github/workflows/cli-scripts-create-compute.yml''])],
       wf_jobs = [(''build'', build_job)] \<rparr>"

section \<open>The notebooks\<close>

text \<open>
  A notebook is a list of cells, markdown or code. A code cell is a list of Python
  statements. The notebooks use imports, assignments to a name or to an attribute,
  expression statements and one IPython shell escape (\<^verbatim>\<open>!pip ...\<close>); \<open>If\<close> and \<open>Try\<close>
  are the constructs of Python for branching and for handling an exception, which a
  code cell could hold. Numeric literals are kept as their source text, comments are
  left out, and a markdown cell is kept by its opening words.
\<close>

datatype expr =
    Name string
  | Str string
  | Num string
  | BoolC bool
  | Attr expr string
  | Call expr "expr list"
  | Kw string expr
  | ListE "expr list"
  | TupleE "expr list"

datatype stmt =
    Import string "string list"
  | ImportMod string
  | Assign string expr
  | SetAttr expr string expr
  | Expr expr
  | Shell string
  | If expr "stmt list" "stmt list"
  | Try "stmt list" "stmt list"

datatype cell = Markdown string | Code "stmt list"

type_synonym notebook = "cell list"

text \<open>\<^verbatim>\<open>python-sdk/tutorials/an-introduction/3.pytorch-model-cloud-data.ipynb\<close>\<close>

definition cloud_data_notebook :: notebook where
  "cloud_data_notebook =
   [ Markdown ''# Tutorial: Bring your own data (Part 3 of 3)'',
     Markdown ''### Understanding your machine learning code changes'',
     Markdown ''## Upload your data to Azure'',
     Code [ Shell ''pip install --upgrade torchvision'' ],
     Code [ Import ''azureml.core'' [''Workspace'', ''Dataset''],
            Import ''torchvision'' [''datasets''],
            Assign ''ws'' (Call (Attr (Name ''Workspace'') ''from_config'') []),
            Expr (Call (Attr (Name ''datasets'') ''CIFAR10'')
                    [Str ''.'', Kw ''download'' (BoolC True)]),
            Assign ''ds'' (Call (Attr (Name ''ws'') ''get_default_datastore'') []),
            Expr (Call (Attr (Name ''ds'') ''upload'')
                    [Kw ''src_dir'' (Str ''cifar-10-batches-py''),
                     Kw ''target_path'' (Str ''tutorials/datasets/cifar-10-batches-py''),
                     Kw ''overwrite'' (BoolC True)]) ],
     Code [ ImportMod ''os'',
            ImportMod ''shutil'',
            Expr (Call (Attr (Name ''os'') ''remove'') [Str ''cifar-10-python.tar.gz'']),
            Expr (Call (Attr (Name ''shutil'') ''rmtree'') [Str ''cifar-10-batches-py'']) ],
     Markdown ''The `target_path` specifies the path on the datastore where the CIFAR10 data will be uploaded.'',
     Markdown ''## Submit your machine learning code to Azure Machine Learning'',
     Code [ Import ''azureml.core''
              [''Experiment'', ''Environment'', ''ScriptRunConfig'', ''Dataset''],
            Import ''azureml.widgets'' [''RunDetails''],
            Assign ''ds''
              (Call (Attr (Attr (Name ''Dataset'') ''File'') ''from_files'')
                 [TupleE [Call (Attr (Name ''ws'') ''get_default_datastore'') [],
                          Str ''tutorials/datasets/'']]),
            Assign ''env''
              (Call (Attr (Name ''Environment'') ''from_conda_specification'')
                 [Kw ''name'' (Str ''pytorch-env-tutorial''),
                  Kw ''file_path'' (Str ''environment.yml'')]),
            Assign ''src''
              (Call (Name ''ScriptRunConfig'')
                 [Kw ''source_directory'' (Str ''src''),
                  Kw ''script'' (Str ''train-with-cloud-data-and-logging.py''),
                  Kw ''compute_target'' (Str ''cpu-cluster''),
                  Kw ''environment'' (Name ''env''),
                  Kw ''arguments''
                    (ListE [Str ''--data-path'',
                            Call (Attr (Name ''ds'') ''as_mount'') [],
                            Str ''--learning-rate'', Num ''0.003'',
                            Str ''--momentum'', Num ''0.92'',
                            Str ''--epochs'', Num ''2''])]),
            Assign ''run''
              (Call (Attr (Call (Name ''Experiment'')
                             [Kw ''workspace'' (Name ''ws''),
                              Kw ''name'' (Str ''an-introduction-train-cloud-data-logging-tutorial'')])
                          ''submit'')
                 [Name ''src'']),
            Expr (Call (Attr (Call (Name ''RunDetails'') [Name ''run'']) ''show'') []) ],
     Markdown ''### Understand the control code'',
     Markdown ''If you're not going to use what you've created here, delete the resources you just created with this quickstart so you don't incur any charges for storage. In the Azure portal, select and delete your resource group.'',
     Code [ Expr (Call (Attr (Name ''run'') ''wait_for_completion'')
                    [Kw ''show_output'' (BoolC True)]) ] ]"

text \<open>
  The notebook stored after the workflow in
  \<^verbatim>\<open>.github/workflows/cli-scripts-create-compute.yml\<close> (lines 33 to 248):
  "Log metrics with TensorBoard in PyTorch Lightning".
\<close>

definition tensorboard_notebook :: notebook where
  "tensorboard_notebook =
   [ Markdown ''# Log metrics with TensorBoard in PyTorch Lightning'',
     Code [ Import ''azureml.core'' [''Workspace''],
            Assign ''ws'' (Call (Attr (Name ''Workspace'') ''from_config'') []),
            Expr (Name ''ws'') ],
     Code [ Assign ''source_dir'' (Str ''src''),
            Assign ''script_name'' (Str ''train-with-tensorboard-logging.py''),
            Assign ''environment_file'' (Str ''environment.yml''),
            Assign ''environment_name'' (Str ''pt-lightning''),
            Assign ''experiment_name'' (Str ''pt-lightning-tensorboard-tutorial''),
            Assign ''compute_name'' (Str ''gpu-K80-2'') ],
     Markdown ''## Create environment'',
     Code [ Import ''azureml.core'' [''Environment''],
            Assign ''env''
              (Call (Attr (Name ''Environment'') ''from_conda_specification'')
                 [Name ''environment_name'', Name ''environment_file'']),
            SetAttr (Attr (Name ''env'') ''docker'') ''enabled'' (BoolC True),
            SetAttr (Attr (Name ''env'') ''docker'') ''base_image''
              (Str ''mcr.microsoft.com/azureml/openmpi3.1.2-cuda10.2-cudnn8-ubuntu18.04'') ],
     Markdown ''## Enable logging in training script'',
     Markdown ''## Configure and run training job'',
     Code [ Import ''azureml.core'' [''ScriptRunConfig'', ''Experiment''],
            Assign ''src''
              (Call (Name ''ScriptRunConfig'')
                 [Kw ''source_directory'' (Name ''source_dir''),
                  Kw ''script'' (Name ''script_name''),
                  Kw ''arguments''
                    (ListE [Str ''--max_epochs'', Num ''25'',
                            Str ''--gpus'', Num ''2'',
                            Str ''--accelerator'', Str ''ddp'',
                            Str ''--logdir'', Str ''./logs'']),
                  Kw ''compute_target'' (Name ''compute_name''),
                  Kw ''environment'' (Name ''env'')]),
            Assign ''run''
              (Call (Attr (Call (Name ''Experiment'')
                             [Name ''ws'', Name ''experiment_name''])
                          ''submit'')
                 [Name ''src'']),
            Expr (Name ''run'') ],
     Markdown ''## Visualize logs in TensorBoard'',
     Code [ Import ''azureml.tensorboard'' [''Tensorboard''],
            Assign ''tb'' (Call (Name ''Tensorboard'') [ListE [Name ''run'']]),
            Expr (Call (Attr (Name ''tb'') ''start'') []) ],
     Markdown ''After you are done using TensorBoard, be sure to call `stop()` to stop the TensorBoard instance, otherwise it will continue to run until you shut down your notebook kernel.'',
     Code [ Expr (Call (Attr (Name ''tb'') ''stop'') []) ],
     Markdown ''For more information on using TensorBoard to visualize your Azure ML experiments'',
     Code [ Expr (Call (Attr (Name ''run'') ''wait_for_completion'')
                    [Kw ''show_output'' (BoolC True)]) ] ]"

definition notebooks :: "notebook list" where
  "notebooks = [cloud_data_notebook, tensorboard_notebook]"

section \<open>Running the workflow\<close>

subsection \<open>Steps and the job's conclusion\<close>

text \<open>
  GitHub Actions runs the steps of a job in order. No step of this job has an
  \<^verbatim>\<open>if:\<close> condition, so each runs only while the job has not failed. A step that
  fails fails the job and the steps after it are skipped, unless the step carries
  \<^verbatim>\<open>continue-on-error: true\<close>. What each step does (an action, a shell command
  against the cloud account) is outside the repository: its outcome is a parameter.
  The result is the list of steps that ran and the job's conclusion.
\<close>

datatype outcome = Success | Failure

fun run_steps :: "(step \<Rightarrow> outcome) \<Rightarrow> step list \<Rightarrow> step list \<times> outcome" where
  "run_steps oc [] = ([], Success)"
| "run_steps oc (s # ss) =
     (if oc s = Failure \<and> \<not> continue_on_error s then ([s], Failure)
      else (case run_steps oc ss of (rest, r) \<Rightarrow> (s # rest, r)))"

subsection \<open>Triggers\<close>

text \<open>
  A cron expression has five fields separated by spaces: minute, hour, day of month,
  month, day of week. The fields read here are \<^verbatim>\<open>*\<close> (any value), a number, and
  \<^verbatim>\<open>a/b\<close> (from a, every b). An expression that does not parse never fires.
\<close>

fun split_on :: "char \<Rightarrow> string \<Rightarrow> string list" where
  "split_on c [] = [[]]"
| "split_on c (x # xs) =
     (if x = c then [] # split_on c xs
      else (case split_on c xs of
              w # ws \<Rightarrow> (x # w) # ws
            | [] \<Rightarrow> [[x]]))"

definition digit_val :: "char \<Rightarrow> nat option" where
  "digit_val c =
     (let n = (of_char c :: nat) in if 48 \<le> n \<and> n \<le> 57 then Some (n - 48) else None)"

fun parse_nat_acc :: "nat \<Rightarrow> string \<Rightarrow> nat option" where
  "parse_nat_acc n [] = Some n"
| "parse_nat_acc n (c # cs) =
     (case digit_val c of None \<Rightarrow> None | Some d \<Rightarrow> parse_nat_acc (10 * n + d) cs)"

definition parse_nat :: "string \<Rightarrow> nat option" where
  "parse_nat s = (if s = [] then None else parse_nat_acc 0 s)"

datatype cron_field = Every | At nat | From nat nat

definition parse_field :: "string \<Rightarrow> cron_field option" where
  "parse_field s =
     (case split_on CHR ''/'' s of
        [a] \<Rightarrow> (if a = ''*'' then Some Every else map_option At (parse_nat a))
      | [a, b] \<Rightarrow>
          (case (parse_nat a, parse_nat b) of
             (Some x, Some y) \<Rightarrow> (if y = 0 then None else Some (From x y))
           | _ \<Rightarrow> None)
      | _ \<Rightarrow> None)"

fun field_matches :: "cron_field \<Rightarrow> nat \<Rightarrow> bool" where
  "field_matches Every v = True"
| "field_matches (At n) v = (v = n)"
| "field_matches (From a b) v = (a \<le> v \<and> (v - a) mod b = 0)"

record clock =
  minute :: nat
  hour :: nat
  day :: nat
  month :: nat
  weekday :: nat

definition cron_fires :: "string \<Rightarrow> clock \<Rightarrow> bool" where
  "cron_fires c t =
     (case map parse_field (split_on CHR '' '' c) of
        [Some mi, Some h, Some d, Some mo, Some w] \<Rightarrow>
          field_matches mi (minute t) \<and> field_matches h (hour t) \<and>
          field_matches d (day t) \<and> field_matches mo (month t) \<and>
          field_matches w (weekday t)
      | _ \<Rightarrow> False)"

text \<open>
  The events GitHub can deliver: a clock tick (at which a \<^verbatim>\<open>schedule\<close> may fire), a
  pull request (opened or updated) with its base branch and the files it changes, or
  any other event, by its name.
\<close>

datatype gh_event = Tick clock | PullRequest string "string list" | OtherEvent string

fun event_key :: "gh_event \<Rightarrow> string" where
  "event_key (Tick t) = ''schedule''"
| "event_key (PullRequest b fs) = ''pull_request''"
| "event_key (OtherEvent n) = n"

text \<open>
  The \<^verbatim>\<open>branches\<close> and \<^verbatim>\<open>paths\<close> filters are glob patterns. A pattern with none of
  the glob characters matches exactly itself, which is the only matching modelled.
\<close>

definition glob_chars :: "char list" where
  "glob_chars = ''*?+[]!''"

definition literal_pattern :: "string \<Rightarrow> bool" where
  "literal_pattern p = list_all (\<lambda>c. c \<notin> set glob_chars) p"

definition pattern_matches :: "string \<Rightarrow> string \<Rightarrow> bool" where
  "pattern_matches p s = (p = s)"

fun trigger_fires :: "trigger \<Rightarrow> gh_event \<Rightarrow> bool" where
  "trigger_fires (Crons cs) (Tick t) = list_ex (\<lambda>c. cron_fires c t) cs"
| "trigger_fires (Filters bs ps) (PullRequest base files) =
     ((bs = [] \<or> list_ex (\<lambda>b. pattern_matches b base) bs) \<and>
      (ps = [] \<or> list_ex (\<lambda>f. list_ex (\<lambda>p. pattern_matches p f) ps) files))"
| "trigger_fires _ _ = False"

definition triggered :: "workflow \<Rightarrow> gh_event \<Rightarrow> bool" where
  "triggered w e =
     (case map_of (wf_on w) (event_key e) of
        None \<Rightarrow> False
      | Some t \<Rightarrow> trigger_fires t e)"

text \<open>A triggered workflow runs each of its jobs; no job here has a condition.\<close>

definition run_workflow ::
  "workflow \<Rightarrow> gh_event \<Rightarrow> (step \<Rightarrow> outcome) \<Rightarrow> (string \<times> step list \<times> outcome) list" where
  "run_workflow w e oc =
     (if triggered w e
      then map (\<lambda>(n, j). (n, run_steps oc (job_steps j))) (wf_jobs w)
      else [])"

section \<open>Running a notebook\<close>

subsection \<open>The calls a statement makes\<close>

text \<open>
  What a notebook does is call into libraries: the Azure ML SDK, torchvision, \<^verbatim>\<open>os\<close>
  and \<^verbatim>\<open>shutil\<close>, and the shell for \<^verbatim>\<open>!pip\<close>. An event is one such call, with the
  callee expression and the argument expressions, or one shell command. Python
  evaluates the callee, then the arguments from left to right, then makes the call.
\<close>

datatype event = CallE expr "expr list" | ShellE string

fun events_of :: "expr \<Rightarrow> event list" where
  "events_of (Attr e a) = events_of e"
| "events_of (Call f args) = events_of f @ concat (map events_of args) @ [CallE f args]"
| "events_of (Kw k e) = events_of e"
| "events_of (ListE es) = concat (map events_of es)"
| "events_of (TupleE es) = concat (map events_of es)"
| "events_of e = []"

text \<open>The name a callee is written with: \<^verbatim>\<open>ds.upload\<close>, \<^verbatim>\<open>Experiment().submit\<close>.\<close>

fun dotted :: "expr \<Rightarrow> string" where
  "dotted (Name n) = n"
| "dotted (Attr e a) = dotted e @ ''.'' @ a"
| "dotted (Call f args) = dotted f @ ''()''"
| "dotted e = ''?''"

fun method_name :: "expr \<Rightarrow> string" where
  "method_name (Name n) = n"
| "method_name (Attr e a) = a"
| "method_name e = ''?''"

fun event_name :: "event \<Rightarrow> string" where
  "event_name (CallE f args) = dotted f"
| "event_name (ShellE c) = ''!'' @ c"

text \<open>
  The events of a statement that is neither \<open>If\<close> nor \<open>Try\<close>. An assignment
  evaluates its right-hand side before the target.
\<close>

fun stmt_events :: "stmt \<Rightarrow> event list" where
  "stmt_events (Assign x e) = events_of e"
| "stmt_events (SetAttr t a v) = events_of v @ events_of t"
| "stmt_events (Expr e) = events_of e"
| "stmt_events (Shell c) = [ShellE c]"
| "stmt_events s = []"

fun simple :: "stmt \<Rightarrow> bool" where
  "simple (If c a b) = False"
| "simple (Try b h) = False"
| "simple s = True"

fun cell_stmts :: "cell \<Rightarrow> stmt list" where
  "cell_stmts (Markdown t) = []"
| "cell_stmts (Code ss) = ss"

definition code_stmts :: "notebook \<Rightarrow> stmt list" where
  "code_stmts nb = concat (map cell_stmts nb)"

definition notebook_events :: "notebook \<Rightarrow> event list" where
  "notebook_events nb = concat (map stmt_events (code_stmts nb))"

subsection \<open>Execution with exceptions\<close>

text \<open>
  The libraries are outside the repository, so whether a call raises is a parameter:
  \<open>raises w k\<close> is the exception of the call made after \<open>k\<close> earlier events, if it
  raises. A shell escape does not raise (IPython prints the command's output).
  \<open>truth w c\<close> is the truth value of a condition. Running returns the events that
  happened, the raising call last, and the exception that ended the run, if any.
\<close>

datatype exn = Exn string

record world =
  raises :: "nat \<Rightarrow> exn option"
  truth :: "expr \<Rightarrow> bool"

fun raise_at :: "world \<Rightarrow> nat \<Rightarrow> event \<Rightarrow> exn option" where
  "raise_at w k (CallE f args) = raises w k"
| "raise_at w k (ShellE c) = None"

fun run_events :: "world \<Rightarrow> event list \<Rightarrow> event list \<Rightarrow> event list \<times> exn option" where
  "run_events w [] tr = (tr, None)"
| "run_events w (ev # evs) tr =
     (case raise_at w (length tr) ev of
        Some x \<Rightarrow> (tr @ [ev], Some x)
      | None \<Rightarrow> run_events w evs (tr @ [ev]))"

text \<open>
  Statements run in order and an exception ends the block. \<open>Try\<close> runs its handler
  when its body raises; \<open>If\<close> evaluates its condition and runs one branch.
\<close>

fun exec :: "world \<Rightarrow> stmt \<Rightarrow> event list \<Rightarrow> event list \<times> exn option"
  and exec_block :: "world \<Rightarrow> stmt list \<Rightarrow> event list \<Rightarrow> event list \<times> exn option" where
  "exec w (If c a b) tr =
     (case run_events w (events_of c) tr of
        (tr', Some x) \<Rightarrow> (tr', Some x)
      | (tr', None) \<Rightarrow> (if truth w c then exec_block w a tr' else exec_block w b tr'))"
| "exec w (Try body handler) tr =
     (case exec_block w body tr of
        (tr', Some x) \<Rightarrow> exec_block w handler tr'
      | (tr', None) \<Rightarrow> (tr', None))"
| "exec w s tr = run_events w (stmt_events s) tr"
| "exec_block w [] tr = (tr, None)"
| "exec_block w (s # ss) tr =
     (case exec w s tr of
        (tr', Some x) \<Rightarrow> (tr', Some x)
      | (tr', None) \<Rightarrow> exec_block w ss tr')"

text \<open>
  The cells run from top to bottom ("Run All"); the first exception stops the run.
\<close>

fun run_cells :: "world \<Rightarrow> cell list \<Rightarrow> event list \<Rightarrow> event list \<times> exn option" where
  "run_cells w [] tr = (tr, None)"
| "run_cells w (c # cs) tr =
     (case exec_block w (cell_stmts c) tr of
        (tr', Some x) \<Rightarrow> (tr', Some x)
      | (tr', None) \<Rightarrow> run_cells w cs tr')"

definition run_notebook :: "world \<Rightarrow> notebook \<Rightarrow> event list \<times> exn option" where
  "run_notebook w nb = run_cells w nb []"

subsection \<open>The phases of a notebook\<close>

text \<open>
  The operations of the SDK that the notebooks sequence, by the method called:
  \<^verbatim>\<open>Workspace.from_config\<close> builds the workspace handle,
  \<^verbatim>\<open>Environment.from_conda_specification\<close> defines the environment, \<^verbatim>\<open>upload\<close> and
  \<^verbatim>\<open>Dataset.File.from_files\<close> upload and reference a dataset, \<^verbatim>\<open>ScriptRunConfig\<close>
  constructs the run configuration, \<^verbatim>\<open>submit\<close> submits the job,
  \<^verbatim>\<open>wait_for_completion\<close> polls it and \<^verbatim>\<open>start\<close> (of a \<^verbatim>\<open>Tensorboard\<close>) launches the
  log-visualization client.
\<close>

datatype phase =
  BuildWorkspace | DefineEnvironment | DatasetStep | RunConfiguration | Submit | Poll
  | Visualise

definition phase_table :: "(string \<times> phase) list" where
  "phase_table =
     [(''from_config'', BuildWorkspace),
      (''from_conda_specification'', DefineEnvironment),
      (''upload'', DatasetStep),
      (''from_files'', DatasetStep),
      (''ScriptRunConfig'', RunConfiguration),
      (''submit'', Submit),
      (''wait_for_completion'', Poll),
      (''start'', Visualise)]"

fun phase_of :: "event \<Rightarrow> phase option" where
  "phase_of (CallE f args) = map_of phase_table (method_name f)"
| "phase_of (ShellE c) = None"

definition phases :: "notebook \<Rightarrow> phase list" where
  "phases nb = List.map_filter phase_of (notebook_events nb)"

text \<open>
  The order as the spec words it: workspace handle, environment, dataset, run
  configuration, submit, poll, then the visualization client. A sequence of phases is
  in that order when no phase comes before one the spec lists earlier; a phase may be
  absent or repeated.
\<close>

fun phase_rank :: "phase \<Rightarrow> nat" where
  "phase_rank BuildWorkspace = 0"
| "phase_rank DefineEnvironment = 1"
| "phase_rank DatasetStep = 2"
| "phase_rank RunConfiguration = 3"
| "phase_rank Submit = 4"
| "phase_rank Poll = 5"
| "phase_rank Visualise = 6"

definition in_spec_order :: "phase list \<Rightarrow> bool" where
  "in_spec_order ps = sorted (map phase_rank ps)"

subsection \<open>Names read and handles produced\<close>

fun names_of :: "expr \<Rightarrow> string list" where
  "names_of (Name n) = [n]"
| "names_of (Attr e a) = names_of e"
| "names_of (Call f args) = names_of f @ concat (map names_of args)"
| "names_of (Kw k e) = names_of e"
| "names_of (ListE es) = concat (map names_of es)"
| "names_of (TupleE es) = concat (map names_of es)"
| "names_of e = []"

fun reads :: "stmt \<Rightarrow> string list" where
  "reads (Assign x e) = names_of e"
| "reads (SetAttr t a v) = names_of v @ names_of t"
| "reads (Expr e) = names_of e"
| "reads (If c a b) = names_of c @ concat (map reads a) @ concat (map reads b)"
| "reads (Try b h) = concat (map reads b) @ concat (map reads h)"
| "reads s = []"

text \<open>
  A handle is a name that a statement assigns the result of a call to: \<^verbatim>\<open>ws\<close>,
  \<^verbatim>\<open>ds\<close>, \<^verbatim>\<open>env\<close>, \<^verbatim>\<open>src\<close>, \<^verbatim>\<open>run\<close>, \<^verbatim>\<open>tb\<close>.
\<close>

fun produced :: "stmt \<Rightarrow> string list" where
  "produced (Assign x (Call f args)) = [x]"
| "produced s = []"

definition handle_names :: "notebook \<Rightarrow> string list" where
  "handle_names nb = remdups (concat (map produced (code_stmts nb)))"

text \<open>
  The check that a list of statements reads a handle of \<open>hs\<close> only after a statement
  has produced it; \<open>avail\<close> are the handles produced so far.
\<close>

fun produced_first :: "string list \<Rightarrow> string list \<Rightarrow> stmt list \<Rightarrow> bool" where
  "produced_first hs avail [] = True"
| "produced_first hs avail (s # ss) =
     (list_all (\<lambda>n. n \<notin> set hs \<or> n \<in> set avail) (reads s) \<and>
      produced_first hs (produced s @ avail) ss)"

text \<open>
  Which call consumes which handle, and which call had produced it: the names a call
  is given directly (as the object of the method or as an argument, not through a
  nested call), with the producer of each at that point.
\<close>

fun direct :: "expr \<Rightarrow> string list" where
  "direct (Name n) = [n]"
| "direct (Attr e a) = direct e"
| "direct (Kw k e) = direct e"
| "direct (ListE es) = concat (map direct es)"
| "direct (TupleE es) = concat (map direct es)"
| "direct e = []"

fun consumed :: "event \<Rightarrow> string list" where
  "consumed (CallE f args) = direct f @ concat (map direct args)"
| "consumed (ShellE c) = []"

fun bind_producer :: "stmt \<Rightarrow> (string \<times> string) list \<Rightarrow> (string \<times> string) list" where
  "bind_producer (Assign x (Call f args)) env = (x, dotted f) # env"
| "bind_producer s env = env"

fun flow :: "string list \<Rightarrow> (string \<times> string) list \<Rightarrow> stmt list \<Rightarrow>
    (string \<times> string \<times> string option) list" where
  "flow hs env [] = []"
| "flow hs env (s # ss) =
     concat (map (\<lambda>ev. map (\<lambda>h. (event_name ev, h, map_of env h))
                         (filter (\<lambda>n. n \<in> set hs) (consumed ev)))
               (stmt_events s))
     @ flow hs (bind_producer s env) ss"

definition handle_flow :: "notebook \<Rightarrow> (string \<times> string \<times> string option) list" where
  "handle_flow nb = flow (handle_names nb) [] (code_stmts nb)"

subsection \<open>Arguments of a call\<close>

fun kwarg :: "string \<Rightarrow> expr list \<Rightarrow> expr option" where
  "kwarg k [] = None"
| "kwarg k (Kw k' e # as) = (if k = k' then Some e else kwarg k as)"
| "kwarg k (a # as) = kwarg k as"


fun find_call :: "string \<Rightarrow> event list \<Rightarrow> expr list option" where
  "find_call n [] = None"
| "find_call n (CallE f args # evs) = (if dotted f = n then Some args else find_call n evs)"
| "find_call n (ShellE c # evs) = find_call n evs"

fun arg_after :: "string \<Rightarrow> expr list \<Rightarrow> expr option" where
  "arg_after flag (Str s # e # es) = (if s = flag then Some e else arg_after flag (e # es))"
| "arg_after flag (e # es) = arg_after flag es"
| "arg_after flag [] = None"

subsection \<open>Effects on the local machine\<close>

text \<open>
  The local state a notebook can change: the entries of the working directory, by
  name, and the Python packages brought up to date. An entry is a plain file or a
  directory (what a directory holds is not a separate entry); its flag says whether
  its content passes the md5 checks torchvision makes for CIFAR10: for a directory,
  that it holds every batch file with the right checksum, for a file, that it is the
  archive with the right checksum.

  The operations are those of the libraries, as run by the notebook's kernel
  (Python 3.8 on Linux), and the download is taken to succeed:
  \<^item> \<^verbatim>\<open>datasets.CIFAR10(root, download=True)\<close> does nothing when the directory
    \<^verbatim>\<open>cifar-10-batches-py\<close> under the root passes the check. Otherwise it downloads
    the archive \<^verbatim>\<open>cifar-10-python.tar.gz\<close> to the root, unless a verified archive is
    there, and extracts it, which leaves a verified directory. Writing the archive
    raises IsADirectoryError when a directory has its name; extracting raises
    NotADirectoryError when a plain file has the directory's name.
  \<^item> \<^verbatim>\<open>os.remove\<close> deletes a plain file, and raises FileNotFoundError for a missing
    entry and IsADirectoryError for a directory.
  \<^item> \<^verbatim>\<open>shutil.rmtree\<close> deletes a directory, and raises FileNotFoundError for a
    missing entry and NotADirectoryError for a plain file.
  \<^item> \<^verbatim>\<open>pip install --upgrade p\<close> upgrades package p.

  The other calls of the notebooks go to the workspace in the cloud (or, for
  TensorBoard, to a server process and a temporary directory) and leave the working
  directory as it is. A run that raises returns the exception only.
\<close>

datatype entry = PlainFile bool | Directory bool

record local_state =
  files :: "string \<rightharpoonup> entry"
  upgraded :: "string set"









subsection \<open>The datastore paths of the bring-your-own-data notebook\<close>

definition upload_target :: "notebook \<Rightarrow> string option" where
  "upload_target nb =
     (case find_call ''ds.upload'' (notebook_events nb) of
        Some args \<Rightarrow> (case kwarg ''target_path'' args of Some (Str p) \<Rightarrow> Some p | _ \<Rightarrow> None)
      | None \<Rightarrow> None)"

definition upload_src_dir :: "notebook \<Rightarrow> string option" where
  "upload_src_dir nb =
     (case find_call ''ds.upload'' (notebook_events nb) of
        Some args \<Rightarrow> (case kwarg ''src_dir'' args of Some (Str p) \<Rightarrow> Some p | _ \<Rightarrow> None)
      | None \<Rightarrow> None)"

definition upload_overwrite :: "notebook \<Rightarrow> bool option" where
  "upload_overwrite nb =
     (case find_call ''ds.upload'' (notebook_events nb) of
        Some args \<Rightarrow> (case kwarg ''overwrite'' args of Some (BoolC b) \<Rightarrow> Some b | _ \<Rightarrow> None)
      | None \<Rightarrow> None)"

text \<open>\<^verbatim>\<open>Dataset.File.from_files((datastore, path))\<close>: the datastore expression and the path.\<close>

definition dataset_ref :: "notebook \<Rightarrow> (expr \<times> string) option" where
  "dataset_ref nb =
     (case find_call ''Dataset.File.from_files'' (notebook_events nb) of
        Some [TupleE [store, Str p]] \<Rightarrow> Some (store, p)
      | _ \<Rightarrow> None)"

definition data_path_arg :: "notebook \<Rightarrow> expr option" where
  "data_path_arg nb =
     (case find_call ''ScriptRunConfig'' (notebook_events nb) of
        Some args \<Rightarrow>
          (case kwarg ''arguments'' args of
             Some (ListE xs) \<Rightarrow> arg_after ''--data-path'' xs
           | _ \<Rightarrow> None)
      | None \<Rightarrow> None)"

definition path_components :: "string \<Rightarrow> string list" where
  "path_components p = filter (\<lambda>c. c \<noteq> []) (split_on CHR ''/'' p)"

subsection \<open>The datastore\<close>

text \<open>
  Modelled from the spec: the datastore and its \<^verbatim>\<open>upload\<close> operation belong to the
  Azure ML SDK and service, which the repository calls and does not contain. The spec
  describes a datastore as an abstraction over cloud storage paths, used for data
  upload and mount. So a datastore is a map from a storage path to the content stored
  there, and \<open>upload src_dir target_path overwrite\<close> stores each file of the local
  directory, given by its path relative to the directory, under
  \<^verbatim>\<open>target_path/relative path\<close>: with \<open>overwrite\<close> it replaces what is stored there,
  without it a path already in use keeps its content. Paths the directory has no file
  for are left as they are.
\<close>

fun strip_prefix :: "string \<Rightarrow> string \<Rightarrow> string option" where
  "strip_prefix [] s = Some s"
| "strip_prefix (c # cs) [] = None"
| "strip_prefix (c # cs) (x # xs) = (if c = x then strip_prefix cs xs else None)"

definition upload ::
  "(string \<rightharpoonup> 'c) \<Rightarrow> string \<Rightarrow> bool \<Rightarrow> (string \<rightharpoonup> 'c) \<Rightarrow> (string \<rightharpoonup> 'c)" where
  "upload src_dir target_path overwrite d =
     (\<lambda>p. case strip_prefix (target_path @ ''/'') p of
            None \<Rightarrow> d p
          | Some rel \<Rightarrow>
              (case src_dir rel of
                 None \<Rightarrow> d p
               | Some c \<Rightarrow> (if overwrite \<or> d p = None then Some c else d p)))"

text \<open>
  The upload of the notebook's data-upload cell, with the target path and the
  overwrite flag the cell passes; \<open>src_dir\<close> is the content of the local directory
  \<^verbatim>\<open>cifar-10-batches-py\<close>.
\<close>

definition upload_cell ::
  "notebook \<Rightarrow> (string \<rightharpoonup> 'c) \<Rightarrow> (string \<rightharpoonup> 'c) \<Rightarrow> (string \<rightharpoonup> 'c)" where
  "upload_cell nb src_dir d =
     (case (upload_target nb, upload_overwrite nb) of
        (Some t, Some ow) \<Rightarrow> upload src_dir t ow d
      | _ \<Rightarrow> d)"

text \<open>
  Modelled from the spec: mounting a dataset is likewise an operation of the SDK and
  the service. The spec describes a dataset as an abstraction over cloud storage
  paths, used for mount. A dataset made from a datastore and a folder path shows,
  at its mount point, what the datastore stores under that folder, each file at its
  path relative to the folder.
\<close>

definition folder :: "string \<Rightarrow> string" where
  "folder p = (if p \<noteq> [] \<and> last p = CHR ''/'' then p else p @ ''/'')"

definition mounted :: "(string \<rightharpoonup> 'c) \<Rightarrow> string \<Rightarrow> (string \<rightharpoonup> 'c)" where
  "mounted d p = (\<lambda>rel. d (folder p @ rel))"

text \<open>
  The datastore as the notebook's calls leave it. Of the events of a notebook only
  \<^verbatim>\<open>ds.upload\<close> changes the datastore, with the target path and the overwrite flag
  of the call (\<^verbatim>\<open>overwrite\<close> left out is false, the SDK's default; a call whose
  target path is not a string literal is not modelled and changes nothing). The submitted job
  mounts the datastore as it is when \<^verbatim>\<open>Experiment().submit\<close> is called: what the
  notebook uploads later, the job cannot count on. A notebook that never submits has
  no run.
\<close>

fun store_step :: "(string \<rightharpoonup> 'c) \<Rightarrow> event \<Rightarrow> (string \<rightharpoonup> 'c) \<Rightarrow> (string \<rightharpoonup> 'c)" where
  "store_step src_dir (CallE f args) d =
     (if dotted f = ''ds.upload'' then
        (case kwarg ''target_path'' args of
           Some (Str t) \<Rightarrow>
             upload src_dir t
               (case kwarg ''overwrite'' args of Some (BoolC b) \<Rightarrow> b | _ \<Rightarrow> False) d
         | _ \<Rightarrow> d)
      else d)"
| "store_step src_dir (ShellE c) d = d"

fun store_at_submit ::
  "(string \<rightharpoonup> 'c) \<Rightarrow> event list \<Rightarrow> (string \<rightharpoonup> 'c) \<Rightarrow> (string \<rightharpoonup> 'c) option" where
  "store_at_submit src_dir [] d = None"
| "store_at_submit src_dir (ev # evs) d =
     (if event_name ev = ''Experiment().submit'' then Some d
      else store_at_submit src_dir evs (store_step src_dir ev d))"

section \<open>Properties of the workflow\<close>

lemma build_steps:
  "job_steps build_job =
     [checkout_step, login_step, install_step, setup_step, apt_step, script_step]"
  by (simp add: build_job_def)

lemma run_steps_failure:
  "s \<in> set ss \<Longrightarrow> oc s = Failure \<Longrightarrow> \<not> continue_on_error s \<Longrightarrow>
   snd (run_steps oc ss) = Failure"
  by (induction ss) (auto split: prod.splits)

lemma run_steps_tolerant:
  "(\<And>s. s \<in> set ss \<Longrightarrow> oc s = Failure \<Longrightarrow> continue_on_error s) \<Longrightarrow>
   run_steps oc ss = (ss, Success)"
  by (induction ss) (auto split: prod.splits)

lemma step_flags:
  "\<not> continue_on_error checkout_step" "\<not> continue_on_error login_step"
  "\<not> continue_on_error install_step" "continue_on_error setup_step"
  "\<not> continue_on_error apt_step" "\<not> continue_on_error script_step"
  by (simp_all add: checkout_step_def login_step_def install_step_def setup_step_def
        apt_step_def script_step_def)

lemma only_setup_tolerated:
  "s \<in> set (job_steps build_job) \<Longrightarrow> s \<noteq> setup_step \<Longrightarrow> \<not> continue_on_error s"
  unfolding build_steps using step_flags by auto

lemma split_cron:
  "split_on CHR '' '' ''0 0/4 * * *'' = [''0'', ''0/4'', ''*'', ''*'', ''*'']"
  by simp

lemma parse_field_zero: "parse_field ''0'' = Some (At 0)"
  by (simp add: parse_field_def parse_nat_def digit_val_def)

lemma parse_field_step: "parse_field ''0/4'' = Some (From 0 4)"
  by (simp add: parse_field_def parse_nat_def digit_val_def)

lemma parse_field_star: "parse_field ''*'' = Some Every"
  by (simp add: parse_field_def)

lemma cron_every_four_hours:
  "cron_fires ''0 0/4 * * *'' t = (minute t = 0 \<and> hour t mod 4 = 0)"
  unfolding cron_fires_def split_cron
  by (simp add: parse_field_zero parse_field_step parse_field_star)

lemma triggered_iff:
  "triggered create_compute_workflow e =
     (case e of
        Tick t \<Rightarrow> minute t = 0 \<and> hour t mod 4 = 0
      | PullRequest b fs \<Rightarrow>
          (b = ''main'' \<or> b = ''cli-preview'') \<and>
          (''cli/create-compute.sh'' \<in> set fs \<or>
           ''.github/workflows/cli-scripts-create-compute.yml'' \<in> set fs)
      | OtherEvent n \<Rightarrow> False)"
proof (cases e)
  case (Tick t)
  then show ?thesis
    by (simp add: triggered_def create_compute_workflow_def cron_every_four_hours)
next
  case (PullRequest b fs)
  then show ?thesis
    by (simp add: triggered_def create_compute_workflow_def pattern_matches_def list_ex_iff)
       blast
next
  case (OtherEvent n)
  then show ?thesis
    by (simp add: triggered_def create_compute_workflow_def)
qed

lemma run_build_steps:
  assumes "oc checkout_step = Success" "oc login_step = Success"
    "oc install_step = Success" "oc apt_step = Success"
  shows "run_steps oc (job_steps build_job) = (job_steps build_job, oc script_step)"
proof (cases "oc script_step")
  case Success
  with assms show ?thesis by (simp add: build_steps step_flags)
next
  case Failure
  with assms show ?thesis by (simp add: build_steps step_flags)
qed

text \<open>
  C2. Exactly one step of the job carries \<^verbatim>\<open>continue-on-error: true\<close>, the setup step
  (\<^verbatim>\<open>bash setup.sh\<close>). Whatever the outcomes of the steps, a failure of any other step
  of the job (check out, azure login, install of the ml extension, the apt installs,
  or the test script, run as \<^verbatim>\<open>set -e; bash -x create-compute.sh\<close>) makes the job's
  conclusion a failure; and when no step other than setup fails, every step runs and
  the job succeeds.
\<close>

theorem ci_only_setup_tolerates_failure:
  "filter continue_on_error (job_steps build_job) = [setup_step] \<and>
   step_run setup_step = Some ''bash setup.sh'' \<and>
   step_run script_step = Some ''set -e; bash -x create-compute.sh'' \<and>
   (\<forall>oc s. s \<in> set (job_steps build_job) \<longrightarrow> s \<noteq> setup_step \<longrightarrow> oc s = Failure \<longrightarrow>
      snd (run_steps oc (job_steps build_job)) = Failure) \<and>
   (\<forall>oc. (\<forall>s. s \<noteq> setup_step \<longrightarrow> oc s = Success) \<longrightarrow>
      run_steps oc (job_steps build_job) = (job_steps build_job, Success))"
proof (intro conjI allI impI)
  show "filter continue_on_error (job_steps build_job) = [setup_step]"
    by (simp add: build_steps step_flags)
  show "step_run setup_step = Some ''bash setup.sh''"
    by (simp add: setup_step_def)
  show "step_run script_step = Some ''set -e; bash -x create-compute.sh''"
    by (simp add: script_step_def)
next
  fix oc s
  assume "s \<in> set (job_steps build_job)" "s \<noteq> setup_step" "oc s = Failure"
  then show "snd (run_steps oc (job_steps build_job)) = Failure"
    by (intro run_steps_failure only_setup_tolerated)
next
  fix oc :: "step \<Rightarrow> outcome"
  assume ok: "\<forall>s. s \<noteq> setup_step \<longrightarrow> oc s = Success"
  show "run_steps oc (job_steps build_job) = (job_steps build_job, Success)"
  proof (rule run_steps_tolerant)
    fix s
    assume "s \<in> set (job_steps build_job)" "oc s = Failure"
    with ok have "s = setup_step" by auto
    then show "continue_on_error s" by (simp add: step_flags)
  qed
qed

theorem ci_only_setup_tolerates_failure_witness:
  "login_step \<in> set (job_steps build_job) \<and> login_step \<noteq> setup_step \<and>
   snd (run_steps (\<lambda>s. if s = login_step then Failure else Success)
          (job_steps build_job)) = Failure \<and>
   run_steps (\<lambda>s. if s = setup_step then Failure else Success) (job_steps build_job)
     = (job_steps build_job, Success)"
proof -
  have m: "login_step \<in> set (job_steps build_job)"
    by (simp add: build_steps)
  have n: "login_step \<noteq> setup_step"
    by (simp add: login_step_def setup_step_def)
  have "snd (run_steps (\<lambda>s. if s = login_step then Failure else Success)
          (job_steps build_job)) = Failure"
    using ci_only_setup_tolerates_failure m n by simp
  moreover have "run_steps (\<lambda>s. if s = setup_step then Failure else Success)
      (job_steps build_job) = (job_steps build_job, Success)"
    using ci_only_setup_tolerates_failure by simp
  ultimately show ?thesis using m n by simp
qed

text \<open>
  C3, as the spec states it: the job has exactly four steps (check out, azure login,
  install of the ml extension, the bash script). It has six.
\<close>

theorem ci_four_steps_counterexample:
  "\<not> (length (job_steps build_job) = 4) \<and>
   map step_name (job_steps build_job) \<noteq>
     [''check out repo'', ''azure login'', ''install ml cli'', ''test script script'']"
  by (simp add: build_steps checkout_step_def)

text \<open>
  C3, amended. The job consists of exactly six steps in this order: check out the repo
  (\<^verbatim>\<open>actions/checkout@v2\<close>), log into Azure (\<^verbatim>\<open>azure/login@v1\<close>), install the ml
  CLI extension, run \<^verbatim>\<open>bash setup.sh\<close>, install uuid-runtime and jq with apt-get, and
  run \<^verbatim>\<open>create-compute.sh\<close>. The four actions the spec names are steps 1, 2, 3 and 6,
  in that order; the setup and the apt installs stand between the install of the
  extension and the script.
\<close>

theorem ci_six_steps:
  "map (\<lambda>s. (step_name s, step_uses s, step_run s, working_directory s,
             continue_on_error s))
       (job_steps build_job) =
     [(''check out repo'', Some ''actions/checkout@v2'', None, None, False),
      (''azure login'', Some ''azure/login@v1'', None, None, False),
      (''install ml cli'', None, Some ''az extension add -n ml -y'', None, False),
      (''setup'', None, Some ''bash setup.sh'', Some ''cli'', True),
      (''scripts installs'', None,
         Some ''sudo apt-get upgrade -y && sudo apt-get install uuid-runtime jq -y'',
         None, False),
      (''test script script'', None, Some ''set -e; bash -x create-compute.sh'',
         Some ''cli'', False)] \<and>
   job_steps build_job =
     [checkout_step, login_step, install_step] @ [setup_step, apt_step] @ [script_step] \<and>
   map snd (wf_jobs create_compute_workflow) = [build_job]"
  by (simp add: build_steps create_compute_workflow_def checkout_step_def login_step_def
        install_step_def setup_step_def apt_step_def script_step_def)

text \<open>
  C4. The workflow is triggered exactly by a clock tick at minute 0 of an hour
  divisible by 4 (the cron expression \<^verbatim>\<open>0 0/4 * * *\<close>), or by a pull request whose base
  branch is main or cli-preview and whose changed files include
  \<^verbatim>\<open>cli/create-compute.sh\<close> or the workflow file; no other event triggers it. The
  filters are literal patterns. Under either trigger the one job, build, runs: when
  the steps before the script succeed (setup may fail), all six steps run, the azure
  login among them before the script, and the job's conclusion is the script's.
\<close>

theorem ci_triggers:
  "triggered create_compute_workflow e =
     (case e of
        Tick t \<Rightarrow> minute t = 0 \<and> hour t mod 4 = 0
      | PullRequest b fs \<Rightarrow>
          (b = ''main'' \<or> b = ''cli-preview'') \<and>
          (''cli/create-compute.sh'' \<in> set fs \<or>
           ''.github/workflows/cli-scripts-create-compute.yml'' \<in> set fs)
      | OtherEvent n \<Rightarrow> False) \<and>
   map fst (wf_on create_compute_workflow) = [''schedule'', ''pull_request''] \<and>
   list_all literal_pattern
     [''main'', ''cli-preview'', ''cli/create-compute.sh'',
      ''.github/workflows/cli-scripts-create-compute.yml''] \<and>
   (triggered create_compute_workflow e \<longrightarrow>
      oc checkout_step = Success \<longrightarrow> oc login_step = Success \<longrightarrow>
      oc install_step = Success \<longrightarrow> oc apt_step = Success \<longrightarrow>
      run_workflow create_compute_workflow e oc =
        [(''build'',
          [checkout_step, login_step, install_step, setup_step, apt_step, script_step],
          oc script_step)])"
proof (intro conjI impI)
  show "triggered create_compute_workflow e =
     (case e of
        Tick t \<Rightarrow> minute t = 0 \<and> hour t mod 4 = 0
      | PullRequest b fs \<Rightarrow>
          (b = ''main'' \<or> b = ''cli-preview'') \<and>
          (''cli/create-compute.sh'' \<in> set fs \<or>
           ''.github/workflows/cli-scripts-create-compute.yml'' \<in> set fs)
      | OtherEvent n \<Rightarrow> False)"
    by (rule triggered_iff)
  show "map fst (wf_on create_compute_workflow) = [''schedule'', ''pull_request'']"
    by (simp add: create_compute_workflow_def)
  show "list_all literal_pattern
     [''main'', ''cli-preview'', ''cli/create-compute.sh'',
      ''.github/workflows/cli-scripts-create-compute.yml'']"
    by (simp add: literal_pattern_def glob_chars_def)
next
  assume t: "triggered create_compute_workflow e"
    and ok: "oc checkout_step = Success" "oc login_step = Success"
      "oc install_step = Success" "oc apt_step = Success"
  have "run_workflow create_compute_workflow e oc =
      [(''build'', run_steps oc (job_steps build_job))]"
    using t by (simp add: run_workflow_def create_compute_workflow_def)
  then show "run_workflow create_compute_workflow e oc =
        [(''build'',
          [checkout_step, login_step, install_step, setup_step, apt_step, script_step],
          oc script_step)]"
    using run_build_steps[OF ok] by (simp add: build_steps)
qed

theorem ci_triggers_witness:
  "triggered create_compute_workflow (PullRequest ''main'' [''cli/create-compute.sh'']) \<and>
   triggered create_compute_workflow
     (Tick \<lparr>minute = 0, hour = 8, day = 3, month = 11, weekday = 2\<rparr>) \<and>
   \<not> triggered create_compute_workflow
     (Tick \<lparr>minute = 0, hour = 9, day = 3, month = 11, weekday = 2\<rparr>) \<and>
   \<not> triggered create_compute_workflow (PullRequest ''main'' [''README.md'']) \<and>
   run_workflow create_compute_workflow
       (PullRequest ''main'' [''cli/create-compute.sh'']) (\<lambda>s. Success) =
     [(''build'',
       [checkout_step, login_step, install_step, setup_step, apt_step, script_step],
       Success)]"
proof -
  have a: "triggered create_compute_workflow (PullRequest ''main'' [''cli/create-compute.sh''])"
    using ci_triggers[of "PullRequest ''main'' [''cli/create-compute.sh'']"] by simp
  have b: "triggered create_compute_workflow
     (Tick \<lparr>minute = 0, hour = 8, day = 3, month = 11, weekday = 2\<rparr>)"
    using ci_triggers[of "Tick \<lparr>minute = 0, hour = 8, day = 3, month = 11, weekday = 2\<rparr>"]
    by simp
  have c: "\<not> triggered create_compute_workflow
     (Tick \<lparr>minute = 0, hour = 9, day = 3, month = 11, weekday = 2\<rparr>)"
    using ci_triggers[of "Tick \<lparr>minute = 0, hour = 9, day = 3, month = 11, weekday = 2\<rparr>"]
    by simp
  have d: "\<not> triggered create_compute_workflow (PullRequest ''main'' [''README.md''])"
    using ci_triggers[of "PullRequest ''main'' [''README.md'']"] by simp
  have e: "run_workflow create_compute_workflow
       (PullRequest ''main'' [''cli/create-compute.sh'']) (\<lambda>s. Success) =
     [(''build'',
       [checkout_step, login_step, install_step, setup_step, apt_step, script_step],
       Success)]"
    using a ci_triggers[of "PullRequest ''main'' [''cli/create-compute.sh'']" "\<lambda>s. Success"]
    by simp
  from a b c d e show ?thesis by simp
qed

section \<open>Properties of the notebooks\<close>

subsection \<open>The events of the two notebooks\<close>

lemma cloud_data_events:
  "notebook_events cloud_data_notebook =
   [ ShellE ''pip install --upgrade torchvision'',
     CallE (Attr (Name ''Workspace'') ''from_config'') [],
     CallE (Attr (Name ''datasets'') ''CIFAR10'') [Str ''.'', Kw ''download'' (BoolC True)],
     CallE (Attr (Name ''ws'') ''get_default_datastore'') [],
     CallE (Attr (Name ''ds'') ''upload'')
       [Kw ''src_dir'' (Str ''cifar-10-batches-py''),
        Kw ''target_path'' (Str ''tutorials/datasets/cifar-10-batches-py''),
        Kw ''overwrite'' (BoolC True)],
     CallE (Attr (Name ''os'') ''remove'') [Str ''cifar-10-python.tar.gz''],
     CallE (Attr (Name ''shutil'') ''rmtree'') [Str ''cifar-10-batches-py''],
     CallE (Attr (Name ''ws'') ''get_default_datastore'') [],
     CallE (Attr (Attr (Name ''Dataset'') ''File'') ''from_files'')
       [TupleE [Call (Attr (Name ''ws'') ''get_default_datastore'') [],
                Str ''tutorials/datasets/'']],
     CallE (Attr (Name ''Environment'') ''from_conda_specification'')
       [Kw ''name'' (Str ''pytorch-env-tutorial''),
        Kw ''file_path'' (Str ''environment.yml'')],
     CallE (Attr (Name ''ds'') ''as_mount'') [],
     CallE (Name ''ScriptRunConfig'')
       [Kw ''source_directory'' (Str ''src''),
        Kw ''script'' (Str ''train-with-cloud-data-and-logging.py''),
        Kw ''compute_target'' (Str ''cpu-cluster''),
        Kw ''environment'' (Name ''env''),
        Kw ''arguments''
          (ListE [Str ''--data-path'',
                  Call (Attr (Name ''ds'') ''as_mount'') [],
                  Str ''--learning-rate'', Num ''0.003'',
                  Str ''--momentum'', Num ''0.92'',
                  Str ''--epochs'', Num ''2''])],
     CallE (Name ''Experiment'')
       [Kw ''workspace'' (Name ''ws''),
        Kw ''name'' (Str ''an-introduction-train-cloud-data-logging-tutorial'')],
     CallE (Attr (Call (Name ''Experiment'')
                    [Kw ''workspace'' (Name ''ws''),
                     Kw ''name'' (Str ''an-introduction-train-cloud-data-logging-tutorial'')])
                 ''submit'')
       [Name ''src''],
     CallE (Name ''RunDetails'') [Name ''run''],
     CallE (Attr (Call (Name ''RunDetails'') [Name ''run'']) ''show'') [],
     CallE (Attr (Name ''run'') ''wait_for_completion'') [Kw ''show_output'' (BoolC True)] ]"
  by (simp add: notebook_events_def code_stmts_def cloud_data_notebook_def)

lemma cloud_data_event_names:
  "map event_name (notebook_events cloud_data_notebook) =
     [''!pip install --upgrade torchvision'', ''Workspace.from_config'',
      ''datasets.CIFAR10'', ''ws.get_default_datastore'', ''ds.upload'',
      ''os.remove'', ''shutil.rmtree'', ''ws.get_default_datastore'',
      ''Dataset.File.from_files'', ''Environment.from_conda_specification'',
      ''ds.as_mount'', ''ScriptRunConfig'', ''Experiment'', ''Experiment().submit'',
      ''RunDetails'', ''RunDetails().show'', ''run.wait_for_completion'']"
  unfolding cloud_data_events by simp

lemma tensorboard_event_names:
  "map event_name (notebook_events tensorboard_notebook) =
     [''Workspace.from_config'', ''Environment.from_conda_specification'',
      ''ScriptRunConfig'', ''Experiment'', ''Experiment().submit'', ''Tensorboard'',
      ''tb.start'', ''tb.stop'', ''run.wait_for_completion'']"
  by (simp add: notebook_events_def code_stmts_def tensorboard_notebook_def)

lemma notebooks_cases:
  "nb \<in> set notebooks \<Longrightarrow> nb = cloud_data_notebook \<or> nb = tensorboard_notebook"
  by (auto simp: notebooks_def)

subsection \<open>The order of the phases\<close>

text \<open>
  C1, as the spec states it: in every notebook the calls come in the order workspace
  handle, environment, dataset, run configuration, submit and poll, then the
  visualization client. Neither notebook keeps that order: the TensorBoard notebook
  starts the client before it polls, and the bring-your-own-data notebook uploads and
  references the dataset before it defines the environment.
\<close>

theorem notebook_spec_order_counterexample:
  "\<not> in_spec_order (phases tensorboard_notebook) \<and>
   \<not> in_spec_order (phases cloud_data_notebook)"
  by (simp add: in_spec_order_def phases_def notebook_events_def code_stmts_def
        tensorboard_notebook_def cloud_data_notebook_def List.map_filter_simps
        phase_table_def)

text \<open>
  C1, amended. Each notebook builds the workspace handle first, constructs the run
  configuration after the environment is defined and (in the bring-your-own-data
  notebook) the dataset is uploaded and referenced, submits after that, and polls the
  run last. The bring-your-own-data notebook uploads and references the dataset
  before it defines the environment. The TensorBoard notebook has no dataset step and
  starts the visualization client after the submit and before the poll.
\<close>

theorem notebook_phase_order:
  "phases cloud_data_notebook =
     [BuildWorkspace, DatasetStep, DatasetStep, DefineEnvironment, RunConfiguration,
      Submit, Poll] \<and>
   phases tensorboard_notebook =
     [BuildWorkspace, DefineEnvironment, RunConfiguration, Submit, Visualise, Poll]"
  by (simp add: phases_def notebook_events_def code_stmts_def
        tensorboard_notebook_def cloud_data_notebook_def List.map_filter_simps
        phase_table_def)

subsection \<open>Local effects\<close>








subsection \<open>Exceptions\<close>

lemma run_events_append:
  "run_events w (a @ b) tr =
     (case run_events w a tr of
        (tr', Some x) \<Rightarrow> (tr', Some x)
      | (tr', None) \<Rightarrow> run_events w b tr')"
  by (induction a arbitrary: tr) (auto split: option.splits)

lemma exec_simple: "simple s \<Longrightarrow> exec w s tr = run_events w (stmt_events s) tr"
  by (cases s) auto

lemma exec_block_simple:
  "list_all simple ss \<Longrightarrow>
   exec_block w ss tr = run_events w (concat (map stmt_events ss)) tr"
  by (induction ss arbitrary: tr)
     (auto simp: exec_simple run_events_append split: prod.splits option.splits)

lemma run_cells_simple:
  "list_all (\<lambda>c. list_all simple (cell_stmts c)) nb \<Longrightarrow>
   run_cells w nb tr = run_events w (notebook_events nb) tr"
  by (induction nb arbitrary: tr)
     (auto simp: notebook_events_def code_stmts_def exec_block_simple run_events_append
           split: prod.splits option.splits)

lemma run_events_first_raise:
  "k < length evs \<Longrightarrow> raise_at w (length tr + k) (evs ! k) = Some x \<Longrightarrow>
   (\<forall>j<k. raise_at w (length tr + j) (evs ! j) = None) \<Longrightarrow>
   run_events w evs tr = (tr @ take (Suc k) evs, Some x)"
proof (induction evs arbitrary: tr k)
  case Nil
  then show ?case by simp
next
  case (Cons ev evs)
  show ?case
  proof (cases k)
    case 0
    with Cons.prems show ?thesis by simp
  next
    case (Suc k')
    from Cons.prems(3) Suc have first: "raise_at w (length tr) ev = None"
      by (metis add.right_neutral nth_Cons_0 zero_less_Suc)
    have a: "k' < length evs" using Cons.prems(1) Suc by simp
    have b: "raise_at w (length (tr @ [ev]) + k') (evs ! k') = Some x"
      using Cons.prems(2) Suc by simp
    have c: "\<forall>j<k'. raise_at w (length (tr @ [ev]) + j) (evs ! j) = None"
    proof (intro allI impI)
      fix j assume "j < k'"
      then have "Suc j < k" using Suc by simp
      with Cons.prems(3) have "raise_at w (length tr + Suc j) ((ev # evs) ! Suc j) = None"
        by blast
      then show "raise_at w (length (tr @ [ev]) + j) (evs ! j) = None" by simp
    qed
    from Cons.IH[OF a b c] first Suc show ?thesis by simp
  qed
qed

lemma run_events_no_raise:
  "(\<forall>k<length evs. raise_at w (length tr + k) (evs ! k) = None) \<Longrightarrow>
   run_events w evs tr = (tr @ evs, None)"
proof (induction evs arbitrary: tr)
  case Nil
  then show ?case by simp
next
  case (Cons ev evs)
  from Cons.prems have first: "raise_at w (length tr) ev = None"
    by (metis add.right_neutral length_greater_0_conv list.distinct(1) nth_Cons_0)
  have "\<forall>k<length evs. raise_at w (length (tr @ [ev]) + k) (evs ! k) = None"
  proof (intro allI impI)
    fix k assume "k < length evs"
    then have "Suc k < length (ev # evs)" by simp
    with Cons.prems have "raise_at w (length tr + Suc k) ((ev # evs) ! Suc k) = None"
      by blast
    then show "raise_at w (length (tr @ [ev]) + k) (evs ! k) = None" by simp
  qed
  from Cons.IH[OF this] first show ?case by simp
qed

lemma raise_at_none: "raises w k = None \<Longrightarrow> raise_at w k ev = None"
  by (cases ev) auto

lemma notebooks_straight_line:
  "nb \<in> set notebooks \<Longrightarrow> list_all (\<lambda>c. list_all simple (cell_stmts c)) nb"
  by (auto dest!: notebooks_cases simp: cloud_data_notebook_def tensorboard_notebook_def)

text \<open>
  C6. No code cell of a notebook holds an \<open>If\<close> or a \<open>Try\<close>: every statement is an
  import, an assignment, an expression or a shell escape. So when the first call to
  raise is the call number \<open>k\<close>, raising \<open>x\<close>, the run of the notebook ends with
  exactly \<open>x\<close> and the calls made are the first \<open>k + 1\<close> of the notebook: none is made
  after the one that raised. When no call raises, all calls are made in order.
\<close>

theorem notebooks_propagate_exceptions:
  "nb \<in> set notebooks \<Longrightarrow>
   list_all (\<lambda>c. list_all simple (cell_stmts c)) nb \<and>
   (\<forall>w k x. k < length (notebook_events nb) \<longrightarrow>
      raise_at w k (notebook_events nb ! k) = Some x \<longrightarrow>
      (\<forall>j<k. raise_at w j (notebook_events nb ! j) = None) \<longrightarrow>
      run_notebook w nb = (take (Suc k) (notebook_events nb), Some x)) \<and>
   (\<forall>w. (\<forall>k<length (notebook_events nb). raise_at w k (notebook_events nb ! k) = None) \<longrightarrow>
      run_notebook w nb = (notebook_events nb, None))"
proof (intro conjI allI impI)
  assume nb: "nb \<in> set notebooks"
  show sl: "list_all (\<lambda>c. list_all simple (cell_stmts c)) nb"
    using nb by (rule notebooks_straight_line)
  {
    fix w k x
    assume "k < length (notebook_events nb)"
      "raise_at w k (notebook_events nb ! k) = Some x"
      "\<forall>j<k. raise_at w j (notebook_events nb ! j) = None"
    then have "run_events w (notebook_events nb) [] =
        ([] @ take (Suc k) (notebook_events nb), Some x)"
      by (intro run_events_first_raise) simp_all
    then show "run_notebook w nb = (take (Suc k) (notebook_events nb), Some x)"
      by (simp add: run_notebook_def run_cells_simple[OF sl])
  }
  {
    fix w
    assume "\<forall>k<length (notebook_events nb). raise_at w k (notebook_events nb ! k) = None"
    then have "run_events w (notebook_events nb) [] = ([] @ notebook_events nb, None)"
      by (intro run_events_no_raise) simp
    then show "run_notebook w nb = (notebook_events nb, None)"
      by (simp add: run_notebook_def run_cells_simple[OF sl])
  }
qed

theorem notebooks_propagate_exceptions_witness:
  "cloud_data_notebook \<in> set notebooks \<and>
   run_notebook
       \<lparr>raises = (\<lambda>k. if k = 4 then Some (Exn ''upload failed'') else None),
        truth = (\<lambda>c. False)\<rparr>
       cloud_data_notebook =
     (take 5 (notebook_events cloud_data_notebook), Some (Exn ''upload failed'')) \<and>
   map event_name (take 5 (notebook_events cloud_data_notebook)) =
     [''!pip install --upgrade torchvision'', ''Workspace.from_config'',
      ''datasets.CIFAR10'', ''ws.get_default_datastore'', ''ds.upload'']"
proof -
  let ?w = "\<lparr>raises = (\<lambda>k. if k = 4 then Some (Exn ''upload failed'') else None),
             truth = (\<lambda>c. False)\<rparr>"
  have m: "cloud_data_notebook \<in> set notebooks"
    by (simp add: notebooks_def)
  have a: "4 < length (notebook_events cloud_data_notebook)"
    unfolding cloud_data_events by simp
  have b: "raise_at ?w 4 (notebook_events cloud_data_notebook ! 4) = Some (Exn ''upload failed'')"
    unfolding cloud_data_events by simp
  have c: "\<forall>j<4. raise_at ?w j (notebook_events cloud_data_notebook ! j) = None"
    by (simp add: raise_at_none)
  have "run_notebook ?w cloud_data_notebook =
      (take (Suc 4) (notebook_events cloud_data_notebook), Some (Exn ''upload failed''))"
    using notebooks_propagate_exceptions[OF m] a b c by blast
  moreover have "map event_name (take 5 (notebook_events cloud_data_notebook)) =
     [''!pip install --upgrade torchvision'', ''Workspace.from_config'',
      ''datasets.CIFAR10'', ''ws.get_default_datastore'', ''ds.upload'']"
    unfolding cloud_data_events by simp
  ultimately show ?thesis using m by simp
qed

subsection \<open>Handles\<close>

lemma produced_cases: "n \<in> set (produced s) \<Longrightarrow> \<exists>f args. s = Assign n (Call f args)"
  by (induction s rule: produced.induct) auto

lemma produced_first_sound:
  "produced_first hs avail ss \<Longrightarrow> i < length ss \<Longrightarrow> n \<in> set (reads (ss ! i)) \<Longrightarrow>
   n \<in> set hs \<Longrightarrow> n \<in> set avail \<or> (\<exists>j<i. n \<in> set (produced (ss ! j)))"
proof (induction ss arbitrary: avail i)
  case Nil
  then show ?case by simp
next
  case (Cons s ss)
  show ?case
  proof (cases i)
    case 0
    with Cons.prems show ?thesis by (auto simp: list_all_iff)
  next
    case (Suc i')
    with Cons.prems have "produced_first hs (produced s @ avail) ss" "i' < length ss"
      "n \<in> set (reads (ss ! i'))" by auto
    from Cons.IH[OF this Cons.prems(4)]
    have "n \<in> set (produced s @ avail) \<or> (\<exists>j<i'. n \<in> set (produced (ss ! j)))" .
    then show ?thesis
    proof (elim disjE exE conjE)
      assume "n \<in> set (produced s @ avail)"
      then show ?thesis using Suc by auto
    next
      fix j assume "j < i'" "n \<in> set (produced (ss ! j))"
      then have "Suc j < i \<and> n \<in> set (produced ((s # ss) ! Suc j))" using Suc by simp
      then show ?thesis by blast
    qed
  qed
qed

lemma notebooks_produced_first:
  "nb \<in> set notebooks \<Longrightarrow> produced_first (handle_names nb) [] (code_stmts nb)"
  by (auto dest!: notebooks_cases
        simp: handle_names_def code_stmts_def cloud_data_notebook_def
          tensorboard_notebook_def)

lemma notebook_handle_names:
  "handle_names cloud_data_notebook = [''ws'', ''ds'', ''env'', ''src'', ''run'']"
  "handle_names tensorboard_notebook = [''ws'', ''env'', ''src'', ''run'', ''tb'']"
  by (simp_all add: handle_names_def code_stmts_def cloud_data_notebook_def
        tensorboard_notebook_def)

text \<open>
  The calls that consume a handle, each with the call that had produced the handle:
  \<^verbatim>\<open>ws\<close> comes from \<^verbatim>\<open>Workspace.from_config\<close> before \<^verbatim>\<open>get_default_datastore\<close> and
  \<^verbatim>\<open>Experiment\<close> take it, \<^verbatim>\<open>env\<close> from \<^verbatim>\<open>Environment.from_conda_specification\<close>
  before \<^verbatim>\<open>ScriptRunConfig\<close>, \<^verbatim>\<open>src\<close> from \<^verbatim>\<open>ScriptRunConfig\<close> before \<^verbatim>\<open>submit\<close>,
  \<^verbatim>\<open>run\<close> from \<^verbatim>\<open>submit\<close> before \<^verbatim>\<open>Tensorboard\<close> and \<^verbatim>\<open>wait_for_completion\<close>.
\<close>

lemma cloud_data_handle_flow:
  "handle_flow cloud_data_notebook =
     [(''ws.get_default_datastore'', ''ws'', Some ''Workspace.from_config''),
      (''ds.upload'', ''ds'', Some ''ws.get_default_datastore''),
      (''ws.get_default_datastore'', ''ws'', Some ''Workspace.from_config''),
      (''ds.as_mount'', ''ds'', Some ''Dataset.File.from_files''),
      (''ScriptRunConfig'', ''env'', Some ''Environment.from_conda_specification''),
      (''Experiment'', ''ws'', Some ''Workspace.from_config''),
      (''Experiment().submit'', ''src'', Some ''ScriptRunConfig''),
      (''RunDetails'', ''run'', Some ''Experiment().submit''),
      (''run.wait_for_completion'', ''run'', Some ''Experiment().submit'')]"
  by (simp add: handle_flow_def handle_names_def code_stmts_def cloud_data_notebook_def)

lemma tensorboard_handle_flow:
  "handle_flow tensorboard_notebook =
     [(''ScriptRunConfig'', ''env'', Some ''Environment.from_conda_specification''),
      (''Experiment'', ''ws'', Some ''Workspace.from_config''),
      (''Experiment().submit'', ''src'', Some ''ScriptRunConfig''),
      (''Tensorboard'', ''run'', Some ''Experiment().submit''),
      (''tb.start'', ''tb'', Some ''Tensorboard''),
      (''tb.stop'', ''tb'', Some ''Tensorboard''),
      (''run.wait_for_completion'', ''run'', Some ''Experiment().submit'')]"
  by (simp add: handle_flow_def handle_names_def code_stmts_def tensorboard_notebook_def)

text \<open>
  C7. In each notebook, a statement that reads a handle (\<^verbatim>\<open>ws\<close>, \<^verbatim>\<open>ds\<close>, \<^verbatim>\<open>env\<close>,
  \<^verbatim>\<open>src\<close>, \<^verbatim>\<open>run\<close>, \<^verbatim>\<open>tb\<close>) comes after a statement of the same notebook that
  assigned that handle the result of a call. The lemmas \<open>cloud_data_handle_flow\<close> and
  \<open>tensorboard_handle_flow\<close> list each consuming call with its producer.
\<close>

theorem handles_produced_before_consumed:
  assumes "nb \<in> set notebooks"
    and "i < length (code_stmts nb)"
    and "h \<in> set (reads (code_stmts nb ! i))"
    and "h \<in> set (handle_names nb)"
  shows "\<exists>j<i. \<exists>f args. code_stmts nb ! j = Assign h (Call f args)"
proof -
  from produced_first_sound[OF notebooks_produced_first[OF assms(1)] assms(2,3,4)]
  obtain j where "j < i" "h \<in> set (produced (code_stmts nb ! j))" by auto
  with produced_cases show ?thesis by blast
qed

lemma cloud_data_stmts:
  "code_stmts cloud_data_notebook ! 6 =
     Expr (Call (Attr (Name ''ds'') ''upload'')
             [Kw ''src_dir'' (Str ''cifar-10-batches-py''),
              Kw ''target_path'' (Str ''tutorials/datasets/cifar-10-batches-py''),
              Kw ''overwrite'' (BoolC True)])"
  "length (code_stmts cloud_data_notebook) = 19"
  by (simp_all add: code_stmts_def cloud_data_notebook_def)

theorem handles_produced_before_consumed_witness:
  "cloud_data_notebook \<in> set notebooks \<and>
   ''ds'' \<in> set (reads (code_stmts cloud_data_notebook ! 6)) \<and>
   ''ds'' \<in> set (handle_names cloud_data_notebook) \<and>
   (\<exists>j<6. \<exists>f args. code_stmts cloud_data_notebook ! j = Assign ''ds'' (Call f args))"
proof -
  have m: "cloud_data_notebook \<in> set notebooks"
    by (simp add: notebooks_def)
  have l: "6 < length (code_stmts cloud_data_notebook)"
    by (simp add: cloud_data_stmts)
  have r: "''ds'' \<in> set (reads (code_stmts cloud_data_notebook ! 6))"
    by (simp add: cloud_data_stmts)
  have h: "''ds'' \<in> set (handle_names cloud_data_notebook)"
    by (simp add: notebook_handle_names)
  from handles_produced_before_consumed[OF m l r h] m r h show ?thesis by blast
qed

subsection \<open>Datastore paths\<close>

lemma cloud_data_upload_args:
  "upload_target cloud_data_notebook = Some ''tutorials/datasets/cifar-10-batches-py''"
  "upload_src_dir cloud_data_notebook = Some ''cifar-10-batches-py''"
  "upload_overwrite cloud_data_notebook = Some True"
  unfolding upload_target_def upload_src_dir_def upload_overwrite_def cloud_data_events
  by simp_all

lemma cloud_data_dataset_ref:
  "dataset_ref cloud_data_notebook =
     Some (Call (Attr (Name ''ws'') ''get_default_datastore'') [], ''tutorials/datasets/'')"
  unfolding dataset_ref_def cloud_data_events by simp

subsection \<open>The upload\<close>

lemma strip_prefix_append: "strip_prefix p (p @ r) = Some r"
  by (induction p) auto

lemma upload_idempotent: "upload src t ow (upload src t ow d) = upload src t ow d"
  by (rule ext) (auto simp: upload_def split: option.splits)

lemma upload_overwrites:
  "src rel = Some c \<Longrightarrow> upload src t True d (t @ ''/'' @ rel) = Some c"
  using strip_prefix_append[of "t @ ''/''" rel] by (simp add: upload_def)

text \<open>
  C10. The data-upload cell calls \<^verbatim>\<open>ds.upload\<close> with
  \<^verbatim>\<open>target_path="tutorials/datasets/cifar-10-batches-py"\<close> and \<^verbatim>\<open>overwrite=True\<close>. For
  any content of the local directory and any prior content of the datastore, the
  upload done twice leaves the datastore as the upload done once does, and each file
  of the directory is then stored under the target path, whatever was stored there
  before.
\<close>

theorem upload_cell_idempotent:
  "upload_cell cloud_data_notebook src d =
     upload src ''tutorials/datasets/cifar-10-batches-py'' True d \<and>
   upload_cell cloud_data_notebook src (upload_cell cloud_data_notebook src d) =
     upload_cell cloud_data_notebook src d \<and>
   (\<forall>rel c. src rel = Some c \<longrightarrow>
      upload_cell cloud_data_notebook src d
        (''tutorials/datasets/cifar-10-batches-py'' @ ''/'' @ rel) = Some c)"
  by (simp add: upload_cell_def cloud_data_upload_args upload_idempotent upload_overwrites
        del: append.simps)

theorem upload_cell_idempotent_witness:
  "upload_cell cloud_data_notebook [''data_batch_1'' \<mapsto> (1::nat)]
       [''tutorials/datasets/cifar-10-batches-py/data_batch_1'' \<mapsto> 0,
        ''tutorials/datasets/cifar-10-batches-py/stale'' \<mapsto> 7]
       ''tutorials/datasets/cifar-10-batches-py/data_batch_1'' = Some 1 \<and>
   upload_cell cloud_data_notebook [''data_batch_1'' \<mapsto> (1::nat)]
       (upload_cell cloud_data_notebook [''data_batch_1'' \<mapsto> 1]
          [''tutorials/datasets/cifar-10-batches-py/data_batch_1'' \<mapsto> 0,
           ''tutorials/datasets/cifar-10-batches-py/stale'' \<mapsto> 7]) =
     upload_cell cloud_data_notebook [''data_batch_1'' \<mapsto> 1]
       [''tutorials/datasets/cifar-10-batches-py/data_batch_1'' \<mapsto> 0,
        ''tutorials/datasets/cifar-10-batches-py/stale'' \<mapsto> 7]"
proof -
  let ?src = "[''data_batch_1'' \<mapsto> (1::nat)]"
  let ?d = "[''tutorials/datasets/cifar-10-batches-py/data_batch_1'' \<mapsto> (0::nat),
             ''tutorials/datasets/cifar-10-batches-py/stale'' \<mapsto> 7]"
  have s: "?src ''data_batch_1'' = Some 1" by simp
  from upload_cell_idempotent[of ?src ?d] s
  have "upload_cell cloud_data_notebook ?src ?d
      (''tutorials/datasets/cifar-10-batches-py'' @ ''/'' @ ''data_batch_1'') = Some 1"
    by blast
  then have "upload_cell cloud_data_notebook ?src ?d
      ''tutorials/datasets/cifar-10-batches-py/data_batch_1'' = Some 1"
    by simp
  with upload_cell_idempotent[of ?src ?d] show ?thesis by blast
qed

subsection \<open>The uploaded directory under the mounted path\<close>

lemma cloud_data_store_at_submit:
  "store_at_submit src (notebook_events cloud_data_notebook) d =
     Some (upload src ''tutorials/datasets/cifar-10-batches-py'' True d)"
  unfolding cloud_data_events by simp

lemma mounted_upload:
  "src rel = Some c \<Longrightarrow>
   mounted (upload src ''tutorials/datasets/cifar-10-batches-py'' True d)
     ''tutorials/datasets/'' (''cifar-10-batches-py'' @ ''/'' @ rel) = Some c"
  using upload_overwrites[of src rel c "''tutorials/datasets/cifar-10-batches-py''" d]
  by (simp add: mounted_def folder_def)

text \<open>
  C9. The path the dataset is created from, \<^verbatim>\<open>tutorials/datasets/\<close>, is a proper prefix
  of the upload's target path \<^verbatim>\<open>tutorials/datasets/cifar-10-batches-py\<close>, and the
  target is the child \<^verbatim>\<open>cifar-10-batches-py\<close> (the name of the uploaded directory) of
  that folder. Both are paths on the workspace's default datastore: the upload goes to
  \<^verbatim>\<open>ds\<close>, produced by \<^verbatim>\<open>ws.get_default_datastore()\<close>, and the dataset is created from
  \<^verbatim>\<open>ws.get_default_datastore()\<close>. The argument after \<^verbatim>\<open>--data-path\<close> is
  \<^verbatim>\<open>ds.as_mount()\<close>, with \<^verbatim>\<open>ds\<close> then the dataset. The upload comes before the submit:
  when the job is submitted, the datastore is the prior datastore with the directory
  uploaded to the target path. So for any content of the local directory and any prior
  content of the datastore, every file of the directory is found in the mounted
  dataset, under \<^verbatim>\<open>cifar-10-batches-py/\<close> at its path relative to the directory.
\<close>

theorem mounted_path_contains_upload:
  "upload_target cloud_data_notebook = Some ''tutorials/datasets/cifar-10-batches-py'' \<and>
   upload_src_dir cloud_data_notebook = Some ''cifar-10-batches-py'' \<and>
   dataset_ref cloud_data_notebook =
     Some (Call (Attr (Name ''ws'') ''get_default_datastore'') [], ''tutorials/datasets/'') \<and>
   (case (dataset_ref cloud_data_notebook, upload_target cloud_data_notebook,
          upload_src_dir cloud_data_notebook) of
      (Some (store, p), Some t, Some n) \<Rightarrow>
        strict_prefix p t \<and> t = p @ n \<and> path_components t = path_components p @ [n]
    | _ \<Rightarrow> False) \<and>
   data_path_arg cloud_data_notebook = Some (Call (Attr (Name ''ds'') ''as_mount'') []) \<and>
   (''ds.upload'', ''ds'', Some ''ws.get_default_datastore'')
     \<in> set (handle_flow cloud_data_notebook) \<and>
   (''ds.as_mount'', ''ds'', Some ''Dataset.File.from_files'')
     \<in> set (handle_flow cloud_data_notebook) \<and>
   ''ds.upload'' \<in> set (map event_name
      (takeWhile (\<lambda>ev. event_name ev \<noteq> ''Experiment().submit'')
         (notebook_events cloud_data_notebook))) \<and>
   store_at_submit src (notebook_events cloud_data_notebook) d =
     Some (upload src ''tutorials/datasets/cifar-10-batches-py'' True d) \<and>
   (\<forall>rel c. src rel = Some c \<longrightarrow>
      (case (store_at_submit src (notebook_events cloud_data_notebook) d,
             dataset_ref cloud_data_notebook, upload_src_dir cloud_data_notebook) of
         (Some d', Some (store, p), Some n) \<Rightarrow> mounted d' p (n @ ''/'' @ rel) = Some c
       | _ \<Rightarrow> False))"
proof (intro conjI allI impI)
  show "(case (dataset_ref cloud_data_notebook, upload_target cloud_data_notebook,
          upload_src_dir cloud_data_notebook) of
      (Some (store, p), Some t, Some n) \<Rightarrow>
        strict_prefix p t \<and> t = p @ n \<and> path_components t = path_components p @ [n]
    | _ \<Rightarrow> False)"
    by (simp add: cloud_data_upload_args cloud_data_dataset_ref strict_prefix_def
          path_components_def)
  show "data_path_arg cloud_data_notebook = Some (Call (Attr (Name ''ds'') ''as_mount'') [])"
    unfolding data_path_arg_def cloud_data_events by simp
  show "''ds.upload'' \<in> set (map event_name
      (takeWhile (\<lambda>ev. event_name ev \<noteq> ''Experiment().submit'')
         (notebook_events cloud_data_notebook)))"
    unfolding cloud_data_events by simp
  show "store_at_submit src (notebook_events cloud_data_notebook) d =
     Some (upload src ''tutorials/datasets/cifar-10-batches-py'' True d)"
    by (rule cloud_data_store_at_submit)
next
  fix rel c
  assume "src rel = Some c"
  with mounted_upload[of src rel c d]
  have "mounted (upload src ''tutorials/datasets/cifar-10-batches-py'' True d)
     ''tutorials/datasets/'' (''cifar-10-batches-py'' @ ''/'' @ rel) = Some c"
    by blast
  then show "(case (store_at_submit src (notebook_events cloud_data_notebook) d,
             dataset_ref cloud_data_notebook, upload_src_dir cloud_data_notebook) of
         (Some d', Some (store, p), Some n) \<Rightarrow> mounted d' p (n @ ''/'' @ rel) = Some c
       | _ \<Rightarrow> False)"
    by (simp only: cloud_data_store_at_submit cloud_data_dataset_ref cloud_data_upload_args
          prod.case option.case)
qed (simp_all add: cloud_data_upload_args cloud_data_dataset_ref cloud_data_handle_flow)

theorem mounted_path_contains_upload_witness:
  "(case store_at_submit [''data_batch_1'' \<mapsto> (1::nat)]
           (notebook_events cloud_data_notebook)
           [''tutorials/datasets/cifar-10-batches-py/data_batch_1'' \<mapsto> 0] of
      Some d' \<Rightarrow>
        mounted d' ''tutorials/datasets/'' ''cifar-10-batches-py/data_batch_1'' = Some 1
    | None \<Rightarrow> False)"
proof -
  let ?src = "[''data_batch_1'' \<mapsto> (1::nat)]"
  let ?d = "[''tutorials/datasets/cifar-10-batches-py/data_batch_1'' \<mapsto> (0::nat)]"
  have s: "?src ''data_batch_1'' = Some 1" by simp
  from mounted_path_contains_upload[of ?src ?d] s
  have "(case (store_at_submit ?src (notebook_events cloud_data_notebook) ?d,
             dataset_ref cloud_data_notebook, upload_src_dir cloud_data_notebook) of
         (Some d', Some (store, p), Some n) \<Rightarrow>
           mounted d' p (n @ ''/'' @ ''data_batch_1'') = Some 1
       | _ \<Rightarrow> False)"
    by blast
  then show ?thesis
    by (simp add: cloud_data_dataset_ref cloud_data_upload_args split: option.splits)
qed

end
